theory Spec2Isabelle
  imports Main
begin

section \<open>Name Request notification emails (\<^verbatim>\<open>nr_notification.py\<close>)\<close>

text \<open>
  The module has two functions, \<^verbatim>\<open>get_url\<close> and \<^verbatim>\<open>process\<close>. \<^verbatim>\<open>process\<close>
  reads a template file, asks the registry for a name request, computes six rendering
  variables, renders the template and packages the payload. Everything it touches outside
  the module (configuration, the file system, the registry client, the date helpers, the
  template engine) is a field of the environment record below; Python values are the
  datatype \<open>pyval\<close>; an exception is a value \<open>Inl e\<close>; and the calls \<^verbatim>\<open>process\<close>
  makes to the outside are recorded, in order, in a list of events.
\<close>

subsection \<open>Python values\<close>

text \<open>
  The values that JSON documents and the configuration hold. A dictionary is an association
  list read with \<open>map_of\<close>; its keys are strings, as JSON's are. Floating point numbers are
  not modelled. A \<open>string\<close> is a list of 8-bit characters.
\<close>

datatype pyval =
    PNone
  | PBool bool
  | PInt int
  | PStr string
  | PList "pyval list"
  | PDict "(string \<times> pyval) list"

datatype error =
    KeyError string
  | TypeError
  | AttributeError
  | ValueError
  | FileNotFoundError
  | JSONDecodeError
  | TemplateError

text \<open>Truth value testing (\<^verbatim>\<open>if x:\<close>, \<^verbatim>\<open>if not x:\<close>).\<close>

fun truthy :: "pyval \<Rightarrow> bool" where
  "truthy PNone = False"
| "truthy (PBool b) = b"
| "truthy (PInt i) = (i \<noteq> 0)"
| "truthy (PStr s) = (s \<noteq> [])"
| "truthy (PList xs) = (xs \<noteq> [])"
| "truthy (PDict kvs) = (kvs \<noteq> [])"

text \<open>
  \<^verbatim>\<open>d[k]\<close> with a string key: a dictionary without the key raises KeyError, and every
  other value raises TypeError (a list or a string wants an integer index, the rest is not
  subscriptable).
\<close>

fun subscript :: "pyval \<Rightarrow> string \<Rightarrow> error + pyval" where
  "subscript (PDict kvs) k = (case map_of kvs k of None \<Rightarrow> Inl (KeyError k) | Some v \<Rightarrow> Inr v)"
| "subscript _ k = Inl TypeError"

text \<open>\<^verbatim>\<open>d.get(k, default)\<close>: only a dictionary has the method.\<close>

fun py_get :: "pyval \<Rightarrow> string \<Rightarrow> pyval \<Rightarrow> error + pyval" where
  "py_get (PDict kvs) k d = (case map_of kvs k of None \<Rightarrow> Inr d | Some v \<Rightarrow> Inr v)"
| "py_get _ k d = Inl AttributeError"

text \<open>
  \<^verbatim>\<open>for x in v\<close>: a list gives its elements, a dictionary its keys, a string its
  characters as one-character strings; nothing else is iterable.
\<close>

fun py_iter :: "pyval \<Rightarrow> error + pyval list" where
  "py_iter (PList xs) = Inr xs"
| "py_iter (PDict kvs) = Inr (map PStr (remdups (map fst kvs)))"
| "py_iter (PStr s) = Inr (map (\<lambda>c. PStr [c]) s)"
| "py_iter _ = Inl TypeError"

text \<open>
  \<^verbatim>\<open>f'{v}'\<close>: a string is inserted as it is; the text of any other value is left to the
  function \<open>rp\<close>.
\<close>

fun py_format :: "(pyval \<Rightarrow> string) \<Rightarrow> pyval \<Rightarrow> string" where
  "py_format rp (PStr s) = s"
| "py_format rp v = rp v"

text \<open>
  \<^verbatim>\<open>str.upper()\<close> on ASCII text: the letters a to z move to A to Z and every other
  character stays. (Python also maps letters outside ASCII; the characters here are bytes,
  and bytes from 128 on are left alone.)
\<close>

definition upper_char :: "char \<Rightarrow> char" where
  "upper_char c =
     (case map_of (zip ''abcdefghijklmnopqrstuvwxyz'' ''ABCDEFGHIJKLMNOPQRSTUVWXYZ'') c of
        None \<Rightarrow> c
      | Some u \<Rightarrow> u)"

definition upper :: "string \<Rightarrow> string" where
  "upper s = map upper_char s"

subsection \<open>The environment\<close>

text \<open>\<^verbatim>\<open>nr_response\<close>: the status code, and the JSON body when it parses.\<close>

record response =
  status_code :: int
  json_body :: "pyval option"

text \<open>
  \<^item> \<open>config\<close>: \<^verbatim>\<open>current_app.config\<close>;
  \<^item> \<open>read_text\<close>: \<^verbatim>\<open>Path(p).read_text()\<close>, which raises when the file is absent;
  \<^item> \<open>substitute_template_parts\<close>: the helper shared by all email processors;
  \<^item> \<open>query_nr_number\<close>: \<^verbatim>\<open>NameXService.query_nr_number\<close>;
  \<^item> \<open>fromisoformat\<close>: \<^verbatim>\<open>datetime.fromisoformat\<close> on a string, \<open>None\<close> when it raises
    ValueError;
  \<^item> \<open>as_legislation_timezone\<close>, \<open>format_as_report_string\<close>: the two functions of
    \<^verbatim>\<open>LegislationDatetime\<close>;
  \<^item> \<open>render\<close>: \<^verbatim>\<open>Template(text, autoescape=flag).render(**vars)\<close>;
  \<^item> \<open>py_repr\<close>: the text of a value that is not a string, for f-strings.

  None of these functions is defined in the module. The substitution helper, the registry
  query and the two \<^verbatim>\<open>LegislationDatetime\<close> functions are total, as the interfaces of the
  specification describe them: an exception raised inside one of them is not modelled.
  Reading a file, parsing a timestamp, parsing the body and rendering can fail.
\<close>

record 'dt env =
  config :: "string \<Rightarrow> pyval option"
  read_text :: "string \<Rightarrow> error + string"
  substitute_template_parts :: "string \<Rightarrow> string"
  query_nr_number :: "pyval \<Rightarrow> response"
  fromisoformat :: "string \<Rightarrow> 'dt option"
  as_legislation_timezone :: "'dt \<Rightarrow> 'dt"
  format_as_report_string :: "'dt \<Rightarrow> string"
  render :: "string \<Rightarrow> bool \<Rightarrow> (string \<times> pyval) list \<Rightarrow> error + string"
  py_repr :: "pyval \<Rightarrow> string"

text \<open>\<^verbatim>\<open>current_app.config.get(k)\<close>: None when the key is not set.\<close>

definition config_get :: "'dt env \<Rightarrow> string \<Rightarrow> pyval" where
  "config_get env k = (case config env k of None \<Rightarrow> PNone | Some v \<Rightarrow> v)"

text \<open>What \<^verbatim>\<open>process\<close> does to the outside, in the order it does it.\<close>

datatype event =
    LogDebug string pyval
  | ReadText string
  | Substitute string
  | QueryNr pyval
  | LogError pyval
  | Render string bool "(string \<times> pyval) list"

subsection \<open>\<^verbatim>\<open>get_url\<close>\<close>

text \<open>
  The table of lines 50 to 74 and \<^verbatim>\<open>url.get(entity_type_cd, None)\<close>. A key that is a
  list or a dictionary is unhashable (TypeError); any other key that is not in the table
  gives None.
\<close>

definition url_table :: "'dt env \<Rightarrow> (string \<times> pyval) list" where
  "url_table env =
     (let DECIDE_BUSINESS_URL = config_get env ''DECIDE_BUSINESS_URL'';
          CORP_FORMS_URL = config_get env ''CORP_FORMS_URL'';
          BUSINESS_URL = config_get env ''BUSINESS_URL'';
          CORP_ONLINE_URL = config_get env ''COLIN_URL'';
          GENERIC_STEPS = PStr ''Submit appropriate form to BC Registries. Call if assistance required'';
          EX_COOP_ASSOC = PStr ''Extraprovincial Cooperative Association''
      in [(''CR'', CORP_ONLINE_URL),
          (''UL'', CORP_ONLINE_URL),
          (''FR'', DECIDE_BUSINESS_URL),
          (''GP'', DECIDE_BUSINESS_URL),
          (''DBA'', DECIDE_BUSINESS_URL),
          (''LP'', CORP_FORMS_URL),
          (''LL'', CORP_FORMS_URL),
          (''CP'', BUSINESS_URL),
          (''BC'', BUSINESS_URL),
          (''CC'', CORP_ONLINE_URL),
          (''SO'', PStr ''BC Social Enterprise''),
          (''PA'', GENERIC_STEPS),
          (''FI'', GENERIC_STEPS),
          (''PAR'', GENERIC_STEPS),
          (''XCR'', CORP_ONLINE_URL),
          (''XUL'', CORP_ONLINE_URL),
          (''RLC'', CORP_ONLINE_URL),
          (''XLP'', CORP_FORMS_URL),
          (''XLL'', CORP_FORMS_URL),
          (''XCP'', EX_COOP_ASSOC),
          (''XSO'', EX_COOP_ASSOC)])"

fun get_url :: "'dt env \<Rightarrow> pyval \<Rightarrow> error + pyval" where
  "get_url env (PStr cd) = (case map_of (url_table env) cd of None \<Rightarrow> Inr PNone | Some u \<Rightarrow> Inr u)"
| "get_url env (PList xs) = Inl TypeError"
| "get_url env (PDict kvs) = Inl TypeError"
| "get_url env v = Inr PNone"

subsection \<open>\<^verbatim>\<open>process\<close>\<close>

text \<open>Line 86: the path of the template file.\<close>

definition template_path :: "'dt env \<Rightarrow> string \<Rightarrow> string" where
  "template_path env option =
     py_format (py_repr env) (config_get env ''TEMPLATE_PATH'') @ ''/NR-'' @ upper option @ ''.html''"

text \<open>Lines 96 to 100: \<^verbatim>\<open>expiration_date\<close>.\<close>

definition expiration_date_of :: "'dt env \<Rightarrow> pyval \<Rightarrow> error + pyval" where
  "expiration_date_of env nr_data =
     (case subscript nr_data ''expirationDate'' of
        Inl e \<Rightarrow> Inl e
      | Inr ed \<Rightarrow>
          if truthy ed then
            (case ed of
               PStr s \<Rightarrow>
                 (case fromisoformat env s of
                    None \<Rightarrow> Inl ValueError
                  | Some exp_date \<Rightarrow>
                      Inr (PStr (format_as_report_string env (as_legislation_timezone env exp_date))))
             | _ \<Rightarrow> Inl TypeError)
          else Inr (PStr ''''))"

text \<open>Lines 102 to 104: \<^verbatim>\<open>refund_value\<close>.\<close>

definition refund_value_of :: "pyval \<Rightarrow> string \<Rightarrow> error + pyval" where
  "refund_value_of email_info option =
     (if option = ''refund'' then
        (case py_get email_info ''data'' (PDict []) of
           Inl e \<Rightarrow> Inl e
         | Inr d \<Rightarrow>
             (case py_get d ''request'' (PDict []) of
                Inl e \<Rightarrow> Inl e
              | Inr r \<Rightarrow> py_get r ''refundValue'' PNone))
      else Inr (PStr ''''))"

text \<open>Lines 106 to 110: the loop over the name entries, left at the first match.\<close>

fun legal_name_loop :: "pyval list \<Rightarrow> error + pyval" where
  "legal_name_loop [] = Inr (PStr '''')"
| "legal_name_loop (n_item # rest) =
     (case subscript n_item ''state'' of
        Inl e \<Rightarrow> Inl e
      | Inr st \<Rightarrow>
          if st = PStr ''APPROVED'' \<or> st = PStr ''CONDITION'' then subscript n_item ''name''
          else legal_name_loop rest)"

definition legal_name_of :: "pyval \<Rightarrow> error + pyval" where
  "legal_name_of nr_data =
     (case subscript nr_data ''names'' of
        Inl e \<Rightarrow> Inl e
      | Inr names \<Rightarrow>
          (case py_iter names of Inl e \<Rightarrow> Inl e | Inr items \<Rightarrow> legal_name_loop items))"

text \<open>Lines 96 to 124: the keyword arguments of \<^verbatim>\<open>mail_template.render\<close>.\<close>

definition render_vars ::
  "'dt env \<Rightarrow> pyval \<Rightarrow> string \<Rightarrow> pyval \<Rightarrow> pyval \<Rightarrow> error + (string \<times> pyval) list" where
  "render_vars env email_info option nr_number nr_data =
     (case expiration_date_of env nr_data of
        Inl e \<Rightarrow> Inl e
      | Inr expiration_date \<Rightarrow>
     (case refund_value_of email_info option of
        Inl e \<Rightarrow> Inl e
      | Inr refund_value \<Rightarrow>
     (case legal_name_of nr_data of
        Inl e \<Rightarrow> Inl e
      | Inr legal_name \<Rightarrow>
     (case subscript nr_data ''entity_type_cd'' of
        Inl e \<Rightarrow> Inl e
      | Inr entity_type_cd \<Rightarrow>
     (case get_url env entity_type_cd of
        Inl e \<Rightarrow> Inl e
      | Inr name_request_url \<Rightarrow>
          Inr [(''nr_number'', nr_number),
               (''expiration_date'', expiration_date),
               (''legal_name'', legal_name),
               (''refund_value'', refund_value),
               (''name_request_url'', name_request_url),
               (''decide_business_url'', config_get env ''DECIDE_BUSINESS_URL'')])))))"

text \<open>Line 127: \<^verbatim>\<open>nr_data['applicants']['emailAddress']\<close>.\<close>

definition recipients_of :: "pyval \<Rightarrow> error + pyval" where
  "recipients_of nr_data =
     (case subscript nr_data ''applicants'' of
        Inl e \<Rightarrow> Inl e
      | Inr applicants \<Rightarrow> subscript applicants ''emailAddress'')"

text \<open>Lines 131 to 137: the subject of each option.\<close>

definition subjects :: "(string \<times> string) list" where
  "subjects =
     [(''before-expiry'', ''Expiring Soon''),
      (''expired'', ''Expired''),
      (''renewal'', ''Confirmation of Renewal''),
      (''upgrade'', ''Confirmation of Upgrade''),
      (''refund'', ''Refund request confirmation'')]"

text \<open>Lines 139 to 147: the payload.\<close>

definition payload :: "pyval \<Rightarrow> string \<Rightarrow> string \<Rightarrow> pyval" where
  "payload recipients subject html_out =
     PDict [(''recipients'', recipients),
            (''requestBy'', PStr ''BCRegistries@gov.bc.ca''),
            (''content'', PDict [(''subject'', PStr subject),
                                 (''body'', PStr html_out),
                                 (''attachments'', PList [])])]"

text \<open>
  \<^verbatim>\<open>process\<close>: the events, and the dictionary it returns or the exception that leaves
  it. HTTPStatus.OK is 200.
\<close>

definition process :: "'dt env \<Rightarrow> pyval \<Rightarrow> string \<Rightarrow> event list \<times> (error + pyval)" where
  "process env email_info option =
     (let log1 = [LogDebug option email_info] in
      case subscript email_info ''identifier'' of
        Inl e \<Rightarrow> (log1, Inl e)
      | Inr nr_number \<Rightarrow>
     (let log2 = log1 @ [ReadText (template_path env option)] in
      case read_text env (template_path env option) of
        Inl e \<Rightarrow> (log2, Inl e)
      | Inr template \<Rightarrow>
     (let filled_template = substitute_template_parts env template;
          log3 = log2 @ [Substitute template, QueryNr nr_number];
          nr_response = query_nr_number env nr_number
      in
      if status_code nr_response \<noteq> 200 then (log3 @ [LogError nr_number], Inr (PDict []))
      else
     (case json_body nr_response of
        None \<Rightarrow> (log3, Inl JSONDecodeError)
      | Some nr_data \<Rightarrow>
     (case render_vars env email_info option nr_number nr_data of
        Inl e \<Rightarrow> (log3, Inl e)
      | Inr vars \<Rightarrow>
     (let log4 = log3 @ [Render filled_template True vars] in
      case render env filled_template True vars of
        Inl e \<Rightarrow> (log4, Inl e)
      | Inr html_out \<Rightarrow>
     (case recipients_of nr_data of
        Inl e \<Rightarrow> (log4, Inl e)
      | Inr recipients \<Rightarrow>
          if \<not> truthy recipients then (log4, Inr (PDict []))
          else
     (case map_of subjects option of
        None \<Rightarrow> (log4, Inl (KeyError option))
      | Some subject \<Rightarrow>
          (log4, Inr (payload recipients
                        (py_format (py_repr env) nr_number @ '' - '' @ subject) html_out))))))))))"

subsection \<open>The properties, in the words of the specification\<close>

text \<open>The field of a record: present when the value is a dictionary that has the key.\<close>

fun dict_lookup :: "pyval \<Rightarrow> string \<Rightarrow> pyval option" where
  "dict_lookup (PDict kvs) k = map_of kvs k"
| "dict_lookup _ k = None"

text \<open>An entry whose state is APPROVED or CONDITION.\<close>

definition approved_or_condition :: "pyval \<Rightarrow> bool" where
  "approved_or_condition n =
     (dict_lookup n ''state'' = Some (PStr ''APPROVED'') \<or>
      dict_lookup n ''state'' = Some (PStr ''CONDITION''))"

text \<open>
  The name of the first entry, in the order of the sequence, whose state is APPROVED or
  CONDITION; the empty string when there is none.
\<close>

definition first_approved_name :: "pyval list \<Rightarrow> pyval option" where
  "first_approved_name names =
     (case find approved_or_condition names of
        None \<Rightarrow> Some (PStr '''')
      | Some n \<Rightarrow> dict_lookup n ''name'')"

text \<open>\<^verbatim>\<open>emailInfo.data.request.refundValue\<close> if present, else absent (None).\<close>

definition request_refund_value :: "pyval \<Rightarrow> pyval" where
  "request_refund_value email_info =
     (case dict_lookup email_info ''data'' of
        None \<Rightarrow> PNone
      | Some d \<Rightarrow>
          (case dict_lookup d ''request'' of
             None \<Rightarrow> PNone
           | Some r \<Rightarrow>
               (case dict_lookup r ''refundValue'' of None \<Rightarrow> PNone | Some v \<Rightarrow> v)))"

text \<open>
  The five options with the template file and the subject suffix the specification gives
  each, and the configured template directory as it appears in a path.
\<close>

definition option_templates :: "(string \<times> string \<times> string) list" where
  "option_templates =
     [(''before-expiry'', ''NR-BEFORE-EXPIRY.html'', ''Expiring Soon''),
      (''expired'', ''NR-EXPIRED.html'', ''Expired''),
      (''renewal'', ''NR-RENEWAL.html'', ''Confirmation of Renewal''),
      (''upgrade'', ''NR-UPGRADE.html'', ''Confirmation of Upgrade''),
      (''refund'', ''NR-REFUND.html'', ''Refund request confirmation'')]"

definition template_root :: "'dt env \<Rightarrow> string" where
  "template_root env = py_format (py_repr env) (config_get env ''TEMPLATE_PATH'')"

subsection \<open>A concrete environment\<close>

definition example_files :: "(string \<times> string) list" where
  "example_files =
     [(''/templates/NR-BEFORE-EXPIRY.html'', ''<p>{{ legal_name }} expires soon</p>''),
      (''/templates/NR-EXPIRED.html'', ''<p>{{ legal_name }} has expired</p>''),
      (''/templates/NR-RENEWAL.html'', ''<p>{{ legal_name }} is renewed</p>''),
      (''/templates/NR-UPGRADE.html'', ''<p>{{ legal_name }} is upgraded</p>''),
      (''/templates/NR-REFUND.html'', ''<p>{{ refund_value }} is refunded</p>'')]"

text \<open>
  Five template files under \<^verbatim>\<open>/templates\<close>; a registry that answers every identifier
  with the given status and body; a date helper that knows one timestamp.
\<close>

definition example_env :: "int \<Rightarrow> pyval option \<Rightarrow> string env" where
  "example_env status body =
     \<lparr>config = map_of [(''TEMPLATE_PATH'', PStr ''/templates''),
                       (''BUSINESS_URL'', PStr ''https://business.example'')],
      read_text = (\<lambda>p. case map_of example_files p of
                             None \<Rightarrow> Inl FileNotFoundError
                           | Some t \<Rightarrow> Inr t),
      substitute_template_parts = (\<lambda>t. ''<html>'' @ t @ ''</html>''),
      query_nr_number = (\<lambda>nr. \<lparr>status_code = status, json_body = body\<rparr>),
      fromisoformat = (\<lambda>s. if s = ''2023-05-01T00:00:00+00:00'' then Some s else None),
      as_legislation_timezone = (\<lambda>d. ''2023-04-30T17:00:00-07:00''),
      format_as_report_string = (\<lambda>d. ''April 30, 2023 at 5:00 pm Pacific time''),
      render = (\<lambda>t ae vars. Inr t),
      py_repr = (\<lambda>v. ''None'')\<rparr>"

definition example_record :: "pyval list \<Rightarrow> pyval \<Rightarrow> pyval" where
  "example_record names expiration =
     PDict [(''names'', PList names),
            (''applicants'', PDict [(''emailAddress'', PStr ''applicant@example.com'')]),
            (''expirationDate'', expiration),
            (''entity_type_cd'', PStr ''BC'')]"

definition example_names :: "pyval list" where
  "example_names =
     [PDict [(''name'', PStr ''A''), (''state'', PStr ''REJECTED'')],
      PDict [(''name'', PStr ''B''), (''state'', PStr ''CONDITION'')]]"

definition example_info :: pyval where
  "example_info =
     PDict [(''identifier'', PStr ''NR 1234567''),
            (''data'', PDict [(''request'', PDict [(''refundValue'', PStr ''30.00'')])])]"

lemmas example_defs =
  process_def template_path_def example_env_def config_get_def upper_def upper_char_def
  example_info_def example_files_def example_record_def example_names_def render_vars_def
  expiration_date_of_def refund_value_of_def legal_name_of_def url_table_def
  recipients_of_def subjects_def payload_def Let_def

subsection \<open>How a run of \<^verbatim>\<open>process\<close> decomposes\<close>

lemma subscript_dict_lookup: "subscript v k = Inr x \<longleftrightarrow> dict_lookup v k = Some x"
  by (cases v) (auto split: option.splits)

lemma py_get_dict_lookup:
  "py_get v k d = Inr x \<Longrightarrow> x = (case dict_lookup v k of None \<Rightarrow> d | Some y \<Rightarrow> y)"
  by (cases v) (auto split: option.splits)

lemma render_call:
  assumes "Render tpl ae vars \<in> set (fst (process env email_info option))"
  shows "\<exists>nr_number template nr_data.
           subscript email_info ''identifier'' = Inr nr_number \<and>
           read_text env (template_path env option) = Inr template \<and>
           tpl = substitute_template_parts env template \<and> ae \<and>
           status_code (query_nr_number env nr_number) = 200 \<and>
           json_body (query_nr_number env nr_number) = Some nr_data \<and>
           render_vars env email_info option nr_number nr_data = Inr vars"
  using assms
  by (auto simp: process_def Let_def split: sum.splits option.splits if_splits)

lemma render_vars_Inr:
  assumes "render_vars env email_info option nr_number nr_data = Inr vars"
  shows "\<exists>expiration_date refund_value legal_name entity_type_cd name_request_url.
           expiration_date_of env nr_data = Inr expiration_date \<and>
           refund_value_of email_info option = Inr refund_value \<and>
           legal_name_of nr_data = Inr legal_name \<and>
           subscript nr_data ''entity_type_cd'' = Inr entity_type_cd \<and>
           get_url env entity_type_cd = Inr name_request_url \<and>
           vars = [(''nr_number'', nr_number),
                   (''expiration_date'', expiration_date),
                   (''legal_name'', legal_name),
                   (''refund_value'', refund_value),
                   (''name_request_url'', name_request_url),
                   (''decide_business_url'', config_get env ''DECIDE_BUSINESS_URL'')]"
  using assms by (auto simp: render_vars_def split: sum.splits)

lemma legal_name_loop_first:
  "legal_name_loop names = Inr v \<Longrightarrow> first_approved_name names = Some v"
proof (induction names)
  case Nil
  then show ?case by (simp add: first_approved_name_def)
next
  case (Cons n_item rest)
  then obtain st where st: "subscript n_item ''state'' = Inr st"
    by (auto split: sum.splits)
  then have look: "dict_lookup n_item ''state'' = Some st"
    by (simp add: subscript_dict_lookup)
  show ?case
  proof (cases "st = PStr ''APPROVED'' \<or> st = PStr ''CONDITION''")
    case True
    with Cons.prems st have "subscript n_item ''name'' = Inr v" by auto
    then have "dict_lookup n_item ''name'' = Some v" by (simp add: subscript_dict_lookup)
    with True look show ?thesis
      by (auto simp: first_approved_name_def approved_or_condition_def)
  next
    case False
    with Cons.prems st have "legal_name_loop rest = Inr v" by auto
    then have "first_approved_name rest = Some v" by (rule Cons.IH)
    with False look show ?thesis
      by (auto simp: first_approved_name_def approved_or_condition_def)
  qed
qed

lemma process_payload:
  assumes "snd (process env email_info option) = Inr p" and "p \<noteq> PDict []"
  shows "\<exists>nr_number template nr_data vars html_out recipients subject.
           subscript email_info ''identifier'' = Inr nr_number \<and>
           read_text env (template_path env option) = Inr template \<and>
           status_code (query_nr_number env nr_number) = 200 \<and>
           json_body (query_nr_number env nr_number) = Some nr_data \<and>
           render_vars env email_info option nr_number nr_data = Inr vars \<and>
           render env (substitute_template_parts env template) True vars = Inr html_out \<and>
           recipients_of nr_data = Inr recipients \<and> truthy recipients \<and>
           map_of subjects option = Some subject \<and>
           p = payload recipients (py_format (py_repr env) nr_number @ '' - '' @ subject) html_out"
  using assms
  by (auto simp: process_def Let_def split: sum.splits option.splits if_splits)

lemma recipients_of_Inr:
  "recipients_of nr_data = Inr r \<longleftrightarrow>
     (\<exists>applicants. subscript nr_data ''applicants'' = Inr applicants \<and>
                   subscript applicants ''emailAddress'' = Inr r)"
  by (auto simp: recipients_of_def split: sum.splits)

lemma read_text_event:
  "ReadText path \<in> set (fst (process env email_info option)) \<Longrightarrow> path = template_path env option"
  by (auto simp: process_def Let_def split: sum.splits option.splits if_splits)

lemma template_path_query [simp]:
  "template_path (env\<lparr>query_nr_number := q\<rparr>) option = template_path env option"
  by (simp add: template_path_def config_get_def)

lemma process_no_template:
  assumes "read_text env (template_path env option) = Inl e"
  shows "process env email_info option =
           (case subscript email_info ''identifier'' of
              Inl e' \<Rightarrow> ([LogDebug option email_info], Inl e')
            | Inr nr_number \<Rightarrow>
                ([LogDebug option email_info, ReadText (template_path env option)], Inl e))"
  using assms by (simp add: process_def Let_def split: sum.splits)

lemma process_empty:
  assumes "snd (process env email_info option) = Inr (PDict [])"
  shows "\<exists>nr_number template rest.
           subscript email_info ''identifier'' = Inr nr_number \<and>
           read_text env (template_path env option) = Inr template \<and>
           fst (process env email_info option) =
             [LogDebug option email_info, ReadText (template_path env option),
              Substitute template, QueryNr nr_number] @ rest"
  using assms
  by (auto simp: process_def Let_def payload_def split: sum.splits option.splits if_splits)

lemma legal_name_loop_total:
  assumes "\<forall>n\<in>set names. dict_lookup n ''state'' \<noteq> None \<and> dict_lookup n ''name'' \<noteq> None"
  shows "\<exists>v. legal_name_loop names = Inr v"
  using assms
proof (induction names)
  case Nil
  show ?case by simp
next
  case (Cons n_item rest)
  then obtain st nm where
    "dict_lookup n_item ''state'' = Some st" and "dict_lookup n_item ''name'' = Some nm"
    by auto
  then have "subscript n_item ''state'' = Inr st" and "subscript n_item ''name'' = Inr nm"
    by (simp_all add: subscript_dict_lookup)
  moreover from Cons have "\<exists>v. legal_name_loop rest = Inr v" by simp
  ultimately show ?case by auto
qed

lemma process_renders:
  assumes "subscript email_info ''identifier'' = Inr nr_number"
    and "read_text env (template_path env option) = Inr template"
    and "status_code (query_nr_number env nr_number) = 200"
    and "json_body (query_nr_number env nr_number) = Some nr_data"
    and "render_vars env email_info option nr_number nr_data = Inr vars"
  shows "Render (substitute_template_parts env template) True vars
           \<in> set (fst (process env email_info option))"
  using assms
  by (simp add: process_def Let_def split: sum.splits option.splits)

lemma refund_value_of_total:
  assumes "\<exists>kvs. email_info = PDict kvs"
    and "\<forall>d. dict_lookup email_info ''data'' = Some d \<longrightarrow>
           (\<exists>kvs. d = PDict kvs) \<and>
           (\<forall>r. dict_lookup d ''request'' = Some r \<longrightarrow> (\<exists>kvs. r = PDict kvs))"
  shows "refund_value_of email_info ''refund'' = Inr (request_refund_value email_info)"
  using assms
  by (auto simp: refund_value_of_def request_refund_value_def split: option.splits)

subsection \<open>The rendering variables\<close>

text \<open>
  Claim C4. The variable \<open>legal_name\<close> that \<^verbatim>\<open>process\<close> passes to the template engine
  is the name of the first entry of the record's \<open>names\<close> list, in the order of the list,
  whose state is APPROVED or CONDITION, and the empty string when no entry has such a state.
  First, every render call carries this value. Second, when every entry of the list has a
  state and a name, the loop does not raise, and \<^verbatim>\<open>process\<close> renders with this value as
  soon as the template is read, the registry answers 200 and the other variables are
  computed. The witness runs the names A (REJECTED), B (CONDITION), where the variable is
  B, and the lists A (REJECTED) and empty, where it is the empty string.
\<close>

theorem legal_name_first_approved:
  assumes "subscript email_info ''identifier'' = Inr nr_number"
    and "json_body (query_nr_number env nr_number) = Some nr_data"
    and "subscript nr_data ''names'' = Inr (PList names)"
  shows "(\<forall>tpl ae vars.
            Render tpl ae vars \<in> set (fst (process env email_info option)) \<longrightarrow>
            map_of vars ''legal_name'' = first_approved_name names)
       \<and> ((\<forall>n\<in>set names. dict_lookup n ''state'' \<noteq> None \<and> dict_lookup n ''name'' \<noteq> None) \<longrightarrow>
            (\<exists>legal_name.
               first_approved_name names = Some legal_name \<and>
               legal_name_of nr_data = Inr legal_name \<and>
               (\<forall>template expiration_date refund_value entity_type_cd name_request_url.
                  read_text env (template_path env option) = Inr template \<and>
                  status_code (query_nr_number env nr_number) = 200 \<and>
                  expiration_date_of env nr_data = Inr expiration_date \<and>
                  refund_value_of email_info option = Inr refund_value \<and>
                  subscript nr_data ''entity_type_cd'' = Inr entity_type_cd \<and>
                  get_url env entity_type_cd = Inr name_request_url \<longrightarrow>
                  Render (substitute_template_parts env template) True
                    [(''nr_number'', nr_number),
                     (''expiration_date'', expiration_date),
                     (''legal_name'', legal_name),
                     (''refund_value'', refund_value),
                     (''name_request_url'', name_request_url),
                     (''decide_business_url'', config_get env ''DECIDE_BUSINESS_URL'')]
                  \<in> set (fst (process env email_info option)))))"
proof (intro conjI allI impI)
  fix tpl ae vars
  assume r: "Render tpl ae vars \<in> set (fst (process env email_info option))"
  from render_call [OF r] assms(1,2)
  have "render_vars env email_info option nr_number nr_data = Inr vars" by auto
  from render_vars_Inr [OF this] obtain legal_name where
    ln: "legal_name_of nr_data = Inr legal_name" and
    v: "map_of vars ''legal_name'' = Some legal_name" by auto
  from ln assms(3) have "legal_name_loop names = Inr legal_name"
    by (simp add: legal_name_of_def)
  then have "first_approved_name names = Some legal_name" by (rule legal_name_loop_first)
  with v show "map_of vars ''legal_name'' = first_approved_name names" by simp
next
  assume wf: "\<forall>n\<in>set names. dict_lookup n ''state'' \<noteq> None \<and> dict_lookup n ''name'' \<noteq> None"
  from legal_name_loop_total [OF wf] obtain legal_name where
    loop: "legal_name_loop names = Inr legal_name" by blast
  then have first: "first_approved_name names = Some legal_name" by (rule legal_name_loop_first)
  from loop assms(3) have ln: "legal_name_of nr_data = Inr legal_name"
    by (simp add: legal_name_of_def)
  have "Render (substitute_template_parts env template) True
          [(''nr_number'', nr_number),
           (''expiration_date'', expiration_date),
           (''legal_name'', legal_name),
           (''refund_value'', refund_value),
           (''name_request_url'', name_request_url),
           (''decide_business_url'', config_get env ''DECIDE_BUSINESS_URL'')]
        \<in> set (fst (process env email_info option))"
    if "read_text env (template_path env option) = Inr template \<and>
        status_code (query_nr_number env nr_number) = 200 \<and>
        expiration_date_of env nr_data = Inr expiration_date \<and>
        refund_value_of email_info option = Inr refund_value \<and>
        subscript nr_data ''entity_type_cd'' = Inr entity_type_cd \<and>
        get_url env entity_type_cd = Inr name_request_url"
    for template expiration_date refund_value entity_type_cd name_request_url
  proof -
    from that ln have "render_vars env email_info option nr_number nr_data =
        Inr [(''nr_number'', nr_number),
           (''expiration_date'', expiration_date),
           (''legal_name'', legal_name),
           (''refund_value'', refund_value),
           (''name_request_url'', name_request_url),
           (''decide_business_url'', config_get env ''DECIDE_BUSINESS_URL'')]"
      by (simp add: render_vars_def)
    with that assms(1,2) show ?thesis by (intro process_renders) auto
  qed
  with first ln show "\<exists>legal_name.
               first_approved_name names = Some legal_name \<and>
               legal_name_of nr_data = Inr legal_name \<and>
               (\<forall>template expiration_date refund_value entity_type_cd name_request_url.
                  read_text env (template_path env option) = Inr template \<and>
                  status_code (query_nr_number env nr_number) = 200 \<and>
                  expiration_date_of env nr_data = Inr expiration_date \<and>
                  refund_value_of email_info option = Inr refund_value \<and>
                  subscript nr_data ''entity_type_cd'' = Inr entity_type_cd \<and>
                  get_url env entity_type_cd = Inr name_request_url \<longrightarrow>
                  Render (substitute_template_parts env template) True
                    [(''nr_number'', nr_number),
                     (''expiration_date'', expiration_date),
                     (''legal_name'', legal_name),
                     (''refund_value'', refund_value),
                     (''name_request_url'', name_request_url),
                     (''decide_business_url'', config_get env ''DECIDE_BUSINESS_URL'')]
                  \<in> set (fst (process env email_info option)))"
    by blast
qed

theorem legal_name_first_approved_witness:
  "first_approved_name example_names = Some (PStr ''B'')
   \<and> Render ''<html><p>{{ legal_name }} is renewed</p></html>'' True
     [(''nr_number'', PStr ''NR 1234567''),
      (''expiration_date'', PStr ''April 30, 2023 at 5:00 pm Pacific time''),
      (''legal_name'', PStr ''B''),
      (''refund_value'', PStr ''''),
      (''name_request_url'', PStr ''https://business.example''),
      (''decide_business_url'', PNone)]
     \<in> set (fst (process
         (example_env 200 (Some (example_record example_names (PStr ''2023-05-01T00:00:00+00:00''))))
         example_info ''renewal''))
   \<and> Render ''<html><p>{{ legal_name }} is renewed</p></html>'' True
     [(''nr_number'', PStr ''NR 1234567''),
      (''expiration_date'', PStr ''April 30, 2023 at 5:00 pm Pacific time''),
      (''legal_name'', PStr ''''),
      (''refund_value'', PStr ''''),
      (''name_request_url'', PStr ''https://business.example''),
      (''decide_business_url'', PNone)]
     \<in> set (fst (process
         (example_env 200
            (Some (example_record [PDict [(''name'', PStr ''A''), (''state'', PStr ''REJECTED'')]]
                     (PStr ''2023-05-01T00:00:00+00:00''))))
         example_info ''renewal''))
   \<and> Render ''<html><p>{{ legal_name }} is renewed</p></html>'' True
     [(''nr_number'', PStr ''NR 1234567''),
      (''expiration_date'', PStr ''April 30, 2023 at 5:00 pm Pacific time''),
      (''legal_name'', PStr ''''),
      (''refund_value'', PStr ''''),
      (''name_request_url'', PStr ''https://business.example''),
      (''decide_business_url'', PNone)]
     \<in> set (fst (process
         (example_env 200 (Some (example_record [] (PStr ''2023-05-01T00:00:00+00:00''))))
         example_info ''renewal''))"
proof -
  let ?rec = "example_record example_names (PStr ''2023-05-01T00:00:00+00:00'')"
  let ?env = "example_env 200 (Some ?rec)"
  let ?names = "[PDict [(''name'', PStr ''A''), (''state'', PStr ''REJECTED'')]]"
  let ?recn = "example_record ?names (PStr ''2023-05-01T00:00:00+00:00'')"
  let ?envn = "example_env 200 (Some ?recn)"
  have i: "subscript example_info ''identifier'' = Inr (PStr ''NR 1234567'')"
    by (simp add: example_info_def)
  have h1: "Render ''<html><p>{{ legal_name }} is renewed</p></html>'' True
     [(''nr_number'', PStr ''NR 1234567''),
      (''expiration_date'', PStr ''April 30, 2023 at 5:00 pm Pacific time''),
      (''legal_name'', PStr ''B''),
      (''refund_value'', PStr ''''),
      (''name_request_url'', PStr ''https://business.example''),
      (''decide_business_url'', PNone)]
      \<in> set (fst (process ?env example_info ''renewal''))"
    by (simp add: example_defs)
  have h3: "json_body (query_nr_number ?env (PStr ''NR 1234567'')) = Some ?rec"
    by (simp add: example_env_def)
  have h4: "subscript ?rec ''names'' = Inr (PList example_names)"
    by (simp add: example_record_def)
  have a: "first_approved_name example_names = Some (PStr ''B'')"
    using legal_name_first_approved [OF i h3 h4, of "''renewal''", THEN conjunct1, rule_format, OF h1]
    by simp
  have k3: "json_body (query_nr_number ?envn (PStr ''NR 1234567'')) = Some ?recn"
    by (simp add: example_env_def)
  have k4: "subscript ?recn ''names'' = Inr (PList ?names)"
    by (simp add: example_record_def)
  have wf: "\<forall>n\<in>set ?names. dict_lookup n ''state'' \<noteq> None \<and> dict_lookup n ''name'' \<noteq> None"
    by simp
  have f: "first_approved_name ?names = Some (PStr '''')"
    by (simp add: first_approved_name_def approved_or_condition_def)
  have c1: "read_text ?envn (template_path ?envn ''renewal'') = Inr ''<p>{{ legal_name }} is renewed</p>''"
    by (simp add: example_defs)
  have c2: "status_code (query_nr_number ?envn (PStr ''NR 1234567'')) = 200"
    by (simp add: example_env_def)
  have c3: "expiration_date_of ?envn ?recn = Inr (PStr ''April 30, 2023 at 5:00 pm Pacific time'')"
    by (simp add: example_defs)
  have c4: "refund_value_of example_info ''renewal'' = Inr (PStr '''')"
    by (simp add: refund_value_of_def)
  have c5: "subscript ?recn ''entity_type_cd'' = Inr (PStr ''BC'')"
    by (simp add: example_record_def)
  have c6: "get_url ?envn (PStr ''BC'') = Inr (PStr ''https://business.example'')"
    by (simp add: example_defs)
  have c7: "substitute_template_parts ?envn ''<p>{{ legal_name }} is renewed</p>''
              = ''<html><p>{{ legal_name }} is renewed</p></html>''"
    by (simp add: example_env_def)
  have c8: "config_get ?envn ''DECIDE_BUSINESS_URL'' = PNone"
    by (simp add: example_env_def config_get_def)
  from legal_name_first_approved [OF i k3 k4, of "''renewal''"] wf
  obtain legal_name where
    g: "first_approved_name ?names = Some legal_name" and
    r: "\<And>template expiration_date refund_value entity_type_cd name_request_url.
          read_text ?envn (template_path ?envn ''renewal'') = Inr template \<Longrightarrow>
          status_code (query_nr_number ?envn (PStr ''NR 1234567'')) = 200 \<Longrightarrow>
          expiration_date_of ?envn ?recn = Inr expiration_date \<Longrightarrow>
          refund_value_of example_info ''renewal'' = Inr refund_value \<Longrightarrow>
          subscript ?recn ''entity_type_cd'' = Inr entity_type_cd \<Longrightarrow>
          get_url ?envn entity_type_cd = Inr name_request_url \<Longrightarrow>
          Render (substitute_template_parts ?envn template) True
            [(''nr_number'', PStr ''NR 1234567''),
             (''expiration_date'', expiration_date),
             (''legal_name'', legal_name),
             (''refund_value'', refund_value),
             (''name_request_url'', name_request_url),
             (''decide_business_url'', config_get ?envn ''DECIDE_BUSINESS_URL'')]
          \<in> set (fst (process ?envn example_info ''renewal''))"
    by blast
  from g f have "legal_name = PStr ''''" by simp
  with r [OF c1 c2 c3 c4 c5 c6]
  have b: "Render ''<html><p>{{ legal_name }} is renewed</p></html>'' True
     [(''nr_number'', PStr ''NR 1234567''),
      (''expiration_date'', PStr ''April 30, 2023 at 5:00 pm Pacific time''),
      (''legal_name'', PStr ''''),
      (''refund_value'', PStr ''''),
      (''name_request_url'', PStr ''https://business.example''),
      (''decide_business_url'', PNone)]
     \<in> set (fst (process ?envn example_info ''renewal''))"
    by (simp add: c7 c8)
  have c: "Render ''<html><p>{{ legal_name }} is renewed</p></html>'' True
     [(''nr_number'', PStr ''NR 1234567''),
      (''expiration_date'', PStr ''April 30, 2023 at 5:00 pm Pacific time''),
      (''legal_name'', PStr ''''),
      (''refund_value'', PStr ''''),
      (''name_request_url'', PStr ''https://business.example''),
      (''decide_business_url'', PNone)]
     \<in> set (fst (process
         (example_env 200 (Some (example_record [] (PStr ''2023-05-01T00:00:00+00:00''))))
         example_info ''renewal''))"
    by (simp add: example_defs)
  from a h1 b c show ?thesis by blast
qed

text \<open>
  Claim C5. The variable \<open>refund_value\<close> is \<^verbatim>\<open>emailInfo.data.request.refundValue\<close>
  (None when it is not there) if the option is \<^verbatim>\<open>refund\<close>, and the empty string for
  every other option, whatever the request holds. First, every render call carries this
  value. Second, the computation does not raise: for another option always, and for
  \<^verbatim>\<open>refund\<close> when \<open>data\<close> and \<open>request\<close>, where present, are mappings; \<^verbatim>\<open>process\<close>
  then renders with this value as soon as the template is read, the registry answers 200
  and the other variables are computed. The witness runs \<^verbatim>\<open>refund\<close> with a refund
  value, without \<open>data\<close> and with an empty \<open>request\<close>, and \<^verbatim>\<open>upgrade\<close> with a refund
  value.
\<close>

theorem refund_value_only_for_refund:
  "(\<forall>tpl ae vars.
      Render tpl ae vars \<in> set (fst (process env email_info option)) \<longrightarrow>
      map_of vars ''refund_value'' =
        Some (if option = ''refund'' then request_refund_value email_info else PStr ''''))
 \<and> ((option = ''refund'' \<longrightarrow>
       (\<forall>d. dict_lookup email_info ''data'' = Some d \<longrightarrow>
          (\<exists>kvs. d = PDict kvs) \<and>
          (\<forall>r. dict_lookup d ''request'' = Some r \<longrightarrow> (\<exists>kvs. r = PDict kvs)))) \<longrightarrow>
     (\<forall>nr_number.
        subscript email_info ''identifier'' = Inr nr_number \<longrightarrow>
        refund_value_of email_info option =
          Inr (if option = ''refund'' then request_refund_value email_info else PStr '''') \<and>
        (\<forall>template nr_data expiration_date legal_name entity_type_cd name_request_url.
           read_text env (template_path env option) = Inr template \<and>
           status_code (query_nr_number env nr_number) = 200 \<and>
           json_body (query_nr_number env nr_number) = Some nr_data \<and>
           expiration_date_of env nr_data = Inr expiration_date \<and>
           legal_name_of nr_data = Inr legal_name \<and>
           subscript nr_data ''entity_type_cd'' = Inr entity_type_cd \<and>
           get_url env entity_type_cd = Inr name_request_url \<longrightarrow>
           Render (substitute_template_parts env template) True
             [(''nr_number'', nr_number),
              (''expiration_date'', expiration_date),
              (''legal_name'', legal_name),
              (''refund_value'',
               if option = ''refund'' then request_refund_value email_info else PStr ''''),
              (''name_request_url'', name_request_url),
              (''decide_business_url'', config_get env ''DECIDE_BUSINESS_URL'')]
           \<in> set (fst (process env email_info option)))))"
proof (intro conjI allI impI)
  fix tpl ae vars
  assume rn: "Render tpl ae vars \<in> set (fst (process env email_info option))"
  from render_call [OF rn] obtain nr_number nr_data where
    "render_vars env email_info option nr_number nr_data = Inr vars" by auto
  from render_vars_Inr [OF this] obtain refund_value where
    rv: "refund_value_of email_info option = Inr refund_value" and
    v: "map_of vars ''refund_value'' = Some refund_value" by auto
  show "map_of vars ''refund_value'' =
        Some (if option = ''refund'' then request_refund_value email_info else PStr '''')"
  proof (cases "option = ''refund''")
    case False
    with rv v show ?thesis by (simp add: refund_value_of_def)
  next
    case True
    with rv obtain d r where
      d: "py_get email_info ''data'' (PDict []) = Inr d" and
      r: "py_get d ''request'' (PDict []) = Inr r" and
      x: "py_get r ''refundValue'' PNone = Inr refund_value"
      by (auto simp: refund_value_of_def split: sum.splits)
    from py_get_dict_lookup [OF d] py_get_dict_lookup [OF r] py_get_dict_lookup [OF x]
    have "refund_value = request_refund_value email_info"
      by (auto simp: request_refund_value_def split: option.splits)
    with True v show ?thesis by simp
  qed
next
  fix nr_number
  assume wf: "option = ''refund'' \<longrightarrow>
       (\<forall>d. dict_lookup email_info ''data'' = Some d \<longrightarrow>
          (\<exists>kvs. d = PDict kvs) \<and>
          (\<forall>r. dict_lookup d ''request'' = Some r \<longrightarrow> (\<exists>kvs. r = PDict kvs)))"
    and i: "subscript email_info ''identifier'' = Inr nr_number"
  from i have dict: "\<exists>kvs. email_info = PDict kvs" by (cases email_info) auto
  show rv: "refund_value_of email_info option =
          Inr (if option = ''refund'' then request_refund_value email_info else PStr '''')"
  proof (cases "option = ''refund''")
    case True
    with wf refund_value_of_total [OF dict] show ?thesis by simp
  next
    case False
    then show ?thesis by (simp add: refund_value_of_def)
  qed
  fix template nr_data expiration_date legal_name entity_type_cd name_request_url
  assume c: "read_text env (template_path env option) = Inr template \<and>
           status_code (query_nr_number env nr_number) = 200 \<and>
           json_body (query_nr_number env nr_number) = Some nr_data \<and>
           expiration_date_of env nr_data = Inr expiration_date \<and>
           legal_name_of nr_data = Inr legal_name \<and>
           subscript nr_data ''entity_type_cd'' = Inr entity_type_cd \<and>
           get_url env entity_type_cd = Inr name_request_url"
  with rv have "render_vars env email_info option nr_number nr_data =
      Inr [(''nr_number'', nr_number),
              (''expiration_date'', expiration_date),
              (''legal_name'', legal_name),
              (''refund_value'',
               if option = ''refund'' then request_refund_value email_info else PStr ''''),
              (''name_request_url'', name_request_url),
              (''decide_business_url'', config_get env ''DECIDE_BUSINESS_URL'')]"
    by (simp add: render_vars_def)
  with c i show "Render (substitute_template_parts env template) True
             [(''nr_number'', nr_number),
              (''expiration_date'', expiration_date),
              (''legal_name'', legal_name),
              (''refund_value'',
               if option = ''refund'' then request_refund_value email_info else PStr ''''),
              (''name_request_url'', name_request_url),
              (''decide_business_url'', config_get env ''DECIDE_BUSINESS_URL'')]
           \<in> set (fst (process env email_info option))"
    by (intro process_renders) auto
qed

theorem refund_value_only_for_refund_witness:
  "request_refund_value example_info = PStr ''30.00''
   \<and> Render ''<html><p>{{ refund_value }} is refunded</p></html>'' True
     [(''nr_number'', PStr ''NR 1234567''),
      (''expiration_date'', PStr ''''),
      (''legal_name'', PStr ''B''),
      (''refund_value'', PStr ''30.00''),
      (''name_request_url'', PStr ''https://business.example''),
      (''decide_business_url'', PNone)]
     \<in> set (fst (process (example_env 200 (Some (example_record example_names (PStr ''''))))
                    example_info ''refund''))
   \<and> Render ''<html><p>{{ legal_name }} is upgraded</p></html>'' True
     [(''nr_number'', PStr ''NR 1234567''),
      (''expiration_date'', PStr ''''),
      (''legal_name'', PStr ''B''),
      (''refund_value'', PStr ''''),
      (''name_request_url'', PStr ''https://business.example''),
      (''decide_business_url'', PNone)]
     \<in> set (fst (process (example_env 200 (Some (example_record example_names (PStr ''''))))
                    example_info ''upgrade''))
   \<and> Render ''<html><p>{{ refund_value }} is refunded</p></html>'' True
     [(''nr_number'', PStr ''NR 1234567''),
      (''expiration_date'', PStr ''''),
      (''legal_name'', PStr ''B''),
      (''refund_value'', PNone),
      (''name_request_url'', PStr ''https://business.example''),
      (''decide_business_url'', PNone)]
     \<in> set (fst (process (example_env 200 (Some (example_record example_names (PStr ''''))))
                    (PDict [(''identifier'', PStr ''NR 1234567'')]) ''refund''))
   \<and> Render ''<html><p>{{ refund_value }} is refunded</p></html>'' True
     [(''nr_number'', PStr ''NR 1234567''),
      (''expiration_date'', PStr ''''),
      (''legal_name'', PStr ''B''),
      (''refund_value'', PNone),
      (''name_request_url'', PStr ''https://business.example''),
      (''decide_business_url'', PNone)]
     \<in> set (fst (process (example_env 200 (Some (example_record example_names (PStr ''''))))
                    (PDict [(''identifier'', PStr ''NR 1234567''),
                            (''data'', PDict [(''request'', PDict [])])]) ''refund''))"
proof -
  let ?rec = "example_record example_names (PStr '''')"
  let ?env = "example_env 200 (Some ?rec)"
  let ?info = "PDict [(''identifier'', PStr ''NR 1234567'')]"
  have h1: "Render ''<html><p>{{ refund_value }} is refunded</p></html>'' True
     [(''nr_number'', PStr ''NR 1234567''),
      (''expiration_date'', PStr ''''),
      (''legal_name'', PStr ''B''),
      (''refund_value'', PStr ''30.00''),
      (''name_request_url'', PStr ''https://business.example''),
      (''decide_business_url'', PNone)]
     \<in> set (fst (process ?env example_info ''refund''))"
    by (simp add: example_defs)
  have h2: "Render ''<html><p>{{ legal_name }} is upgraded</p></html>'' True
     [(''nr_number'', PStr ''NR 1234567''),
      (''expiration_date'', PStr ''''),
      (''legal_name'', PStr ''B''),
      (''refund_value'', PStr ''''),
      (''name_request_url'', PStr ''https://business.example''),
      (''decide_business_url'', PNone)]
     \<in> set (fst (process ?env example_info ''upgrade''))"
    by (simp add: example_defs)
  have a: "request_refund_value example_info = PStr ''30.00''"
    using refund_value_only_for_refund
      [of ?env example_info "''refund''", THEN conjunct1, rule_format, OF h1]
    by simp
  have wf: "''refund'' = ''refund'' \<longrightarrow>
       (\<forall>d. dict_lookup ?info ''data'' = Some d \<longrightarrow>
          (\<exists>kvs. d = PDict kvs) \<and>
          (\<forall>r. dict_lookup d ''request'' = Some r \<longrightarrow> (\<exists>kvs. r = PDict kvs)))"
    by simp
  have i: "subscript ?info ''identifier'' = Inr (PStr ''NR 1234567'')"
    by simp
  have cs: "read_text ?env (template_path ?env ''refund'') = Inr ''<p>{{ refund_value }} is refunded</p>'' \<and>
           status_code (query_nr_number ?env (PStr ''NR 1234567'')) = 200 \<and>
           json_body (query_nr_number ?env (PStr ''NR 1234567'')) = Some ?rec \<and>
           expiration_date_of ?env ?rec = Inr (PStr '''') \<and>
           legal_name_of ?rec = Inr (PStr ''B'') \<and>
           subscript ?rec ''entity_type_cd'' = Inr (PStr ''BC'') \<and>
           get_url ?env (PStr ''BC'') = Inr (PStr ''https://business.example'')"
    by (simp add: example_defs)
  have n: "request_refund_value ?info = PNone"
    by (simp add: request_refund_value_def)
  have c7: "substitute_template_parts ?env ''<p>{{ refund_value }} is refunded</p>''
              = ''<html><p>{{ refund_value }} is refunded</p></html>''"
    by (simp add: example_env_def)
  have c8: "config_get ?env ''DECIDE_BUSINESS_URL'' = PNone"
    by (simp add: example_env_def config_get_def)
  note inst = refund_value_only_for_refund
      [of ?env ?info "''refund''", THEN conjunct2, THEN mp, OF wf, THEN spec, THEN mp, OF i]
  have h3: "Render ''<html><p>{{ refund_value }} is refunded</p></html>'' True
     [(''nr_number'', PStr ''NR 1234567''),
      (''expiration_date'', PStr ''''),
      (''legal_name'', PStr ''B''),
      (''refund_value'', PNone),
      (''name_request_url'', PStr ''https://business.example''),
      (''decide_business_url'', PNone)]
     \<in> set (fst (process ?env ?info ''refund''))"
    using inst [THEN conjunct2, rule_format, OF cs] by (simp add: n c7 c8)
  have h4: "Render ''<html><p>{{ refund_value }} is refunded</p></html>'' True
     [(''nr_number'', PStr ''NR 1234567''),
      (''expiration_date'', PStr ''''),
      (''legal_name'', PStr ''B''),
      (''refund_value'', PNone),
      (''name_request_url'', PStr ''https://business.example''),
      (''decide_business_url'', PNone)]
     \<in> set (fst (process ?env
                    (PDict [(''identifier'', PStr ''NR 1234567''),
                            (''data'', PDict [(''request'', PDict [])])]) ''refund''))"
    by (simp add: example_defs)
  from a h1 h2 h3 h4 show ?thesis by blast
qed

text \<open>
  Claim C6, amended. For a record that has the key \<open>expirationDate\<close>: whenever
  \<^verbatim>\<open>process\<close> renders, the variable \<open>expiration_date\<close> is the report string of the
  timestamp moved to the legislation timezone if the value is a non-empty ISO timestamp, and
  the empty string if the value is empty (an empty string, None).
\<close>

theorem expiration_date_formatted:
  assumes "Render tpl ae vars \<in> set (fst (process env email_info option))"
    and "subscript email_info ''identifier'' = Inr nr_number"
    and "json_body (query_nr_number env nr_number) = Some nr_data"
    and "subscript nr_data ''expirationDate'' = Inr ed"
  shows "(\<forall>s d. ed = PStr s \<and> s \<noteq> [] \<and> fromisoformat env s = Some d \<longrightarrow>
            map_of vars ''expiration_date'' =
              Some (PStr (format_as_report_string env (as_legislation_timezone env d))))
       \<and> (\<not> truthy ed \<longrightarrow> map_of vars ''expiration_date'' = Some (PStr ''''))"
proof -
  from render_call [OF assms(1)] assms(2,3)
  have "render_vars env email_info option nr_number nr_data = Inr vars" by auto
  from render_vars_Inr [OF this] obtain expiration_date where
    e: "expiration_date_of env nr_data = Inr expiration_date" and
    v: "map_of vars ''expiration_date'' = Some expiration_date" by auto
  from e assms(4) v show ?thesis
    by (auto simp: expiration_date_of_def)
qed

theorem expiration_date_formatted_witness:
  "Render ''<html><p>{{ legal_name }} is renewed</p></html>'' True
     [(''nr_number'', PStr ''NR 1234567''),
      (''expiration_date'', PStr ''April 30, 2023 at 5:00 pm Pacific time''),
      (''legal_name'', PStr ''B''),
      (''refund_value'', PStr ''''),
      (''name_request_url'', PStr ''https://business.example''),
      (''decide_business_url'', PNone)]
     \<in> set (fst (process
         (example_env 200 (Some (example_record example_names (PStr ''2023-05-01T00:00:00+00:00''))))
         example_info ''renewal''))
   \<and> Render ''<html><p>{{ legal_name }} is renewed</p></html>'' True
     [(''nr_number'', PStr ''NR 1234567''),
      (''expiration_date'', PStr ''''),
      (''legal_name'', PStr ''B''),
      (''refund_value'', PStr ''''),
      (''name_request_url'', PStr ''https://business.example''),
      (''decide_business_url'', PNone)]
     \<in> set (fst (process (example_env 200 (Some (example_record example_names PNone)))
         example_info ''renewal''))
   \<and> format_as_report_string (example_env 200 None)
         (as_legislation_timezone (example_env 200 None) ''2023-05-01T00:00:00+00:00'')
       = ''April 30, 2023 at 5:00 pm Pacific time''"
proof -
  let ?rec = "example_record example_names (PStr ''2023-05-01T00:00:00+00:00'')"
  let ?env = "example_env 200 (Some ?rec)"
  let ?recn = "example_record example_names PNone"
  let ?envn = "example_env 200 (Some ?recn)"
  have h1: "Render ''<html><p>{{ legal_name }} is renewed</p></html>'' True
     [(''nr_number'', PStr ''NR 1234567''),
      (''expiration_date'', PStr ''April 30, 2023 at 5:00 pm Pacific time''),
      (''legal_name'', PStr ''B''),
      (''refund_value'', PStr ''''),
      (''name_request_url'', PStr ''https://business.example''),
      (''decide_business_url'', PNone)]
     \<in> set (fst (process ?env example_info ''renewal''))"
    by (simp add: example_defs)
  have h2: "subscript example_info ''identifier'' = Inr (PStr ''NR 1234567'')"
    by (simp add: example_info_def)
  have h3: "json_body (query_nr_number ?env (PStr ''NR 1234567'')) = Some ?rec"
    by (simp add: example_env_def)
  have h4: "subscript ?rec ''expirationDate'' = Inr (PStr ''2023-05-01T00:00:00+00:00'')"
    by (simp add: example_record_def)
  have k1: "Render ''<html><p>{{ legal_name }} is renewed</p></html>'' True
     [(''nr_number'', PStr ''NR 1234567''),
      (''expiration_date'', PStr ''''),
      (''legal_name'', PStr ''B''),
      (''refund_value'', PStr ''''),
      (''name_request_url'', PStr ''https://business.example''),
      (''decide_business_url'', PNone)]
     \<in> set (fst (process ?envn example_info ''renewal''))"
    by (simp add: example_defs)
  have k3: "json_body (query_nr_number ?envn (PStr ''NR 1234567'')) = Some ?recn"
    by (simp add: example_env_def)
  have k4: "subscript ?recn ''expirationDate'' = Inr PNone"
    by (simp add: example_record_def)
  have "format_as_report_string (example_env 200 None)
         (as_legislation_timezone (example_env 200 None) ''2023-05-01T00:00:00+00:00'')
       = ''April 30, 2023 at 5:00 pm Pacific time''"
    using expiration_date_formatted [OF h1 h2 h3 h4] expiration_date_formatted [OF k1 h2 k3 k4]
    by (simp add: example_env_def)
  with h1 k1 show ?thesis by blast
qed

text \<open>
  A record without the key \<open>expirationDate\<close>: \<^verbatim>\<open>nr_data['expirationDate']\<close> raises
  KeyError, and nothing is rendered.
\<close>

theorem expiration_date_absent_counterexample:
  "process
     (example_env 200
        (Some (PDict [(''names'', PList example_names),
                      (''applicants'', PDict [(''emailAddress'', PStr ''applicant@example.com'')]),
                      (''entity_type_cd'', PStr ''BC'')])))
     example_info ''renewal''
   = ([LogDebug ''renewal'' example_info,
       ReadText ''/templates/NR-RENEWAL.html'',
       Substitute ''<p>{{ legal_name }} is renewed</p>'',
       QueryNr (PStr ''NR 1234567'')],
      Inl (KeyError ''expirationDate''))"
  by (simp add: example_defs)

subsection \<open>The two exits with an empty mapping\<close>

text \<open>
  Claim C1. When \<^verbatim>\<open>emailInfo\<close> has an identifier, the template file of the option is
  read, and the registry answers the identifier with a status other than 200, then
  \<^verbatim>\<open>process\<close> logs an error and returns the empty mapping, whatever the other inputs
  are; it does not raise.
\<close>

theorem registry_failure_returns_empty:
  assumes "subscript email_info ''identifier'' = Inr nr_number"
    and "read_text env (template_path env option) = Inr template"
    and "status_code (query_nr_number env nr_number) \<noteq> 200"
  shows "process env email_info option =
           ([LogDebug option email_info,
             ReadText (template_path env option),
             Substitute template,
             QueryNr nr_number,
             LogError nr_number],
            Inr (PDict []))"
  using assms by (simp add: process_def Let_def)

theorem registry_failure_returns_empty_witness:
  "process (example_env 404 None) example_info ''expired'' =
     ([LogDebug ''expired'' example_info,
       ReadText ''/templates/NR-EXPIRED.html'',
       Substitute ''<p>{{ legal_name }} has expired</p>'',
       QueryNr (PStr ''NR 1234567''),
       LogError (PStr ''NR 1234567'')],
      Inr (PDict []))"
proof -
  have h1: "subscript example_info ''identifier'' = Inr (PStr ''NR 1234567'')"
    by (simp add: example_info_def)
  have p: "template_path (example_env 404 None) ''expired'' = ''/templates/NR-EXPIRED.html''"
    by (simp add: example_defs)
  have h2: "read_text (example_env 404 None) (template_path (example_env 404 None) ''expired'')
              = Inr ''<p>{{ legal_name }} has expired</p>''"
    unfolding p by (simp add: example_env_def example_files_def)
  have h3: "status_code (query_nr_number (example_env 404 None) (PStr ''NR 1234567'')) \<noteq> 200"
    by (simp add: example_env_def)
  show ?thesis
    using registry_failure_returns_empty [OF h1 h2 h3] by (simp add: p)
qed

text \<open>
  Claim C3, amended. When the registry answers with status 200 and a record whose
  \<^verbatim>\<open>applicants.emailAddress\<close> is there and is empty (an empty string or list, None),
  \<^verbatim>\<open>process\<close> never returns a payload, and it returns the empty mapping as soon as the
  template is read, the six variables are computed and the template renders.
\<close>

theorem empty_recipients_return_empty:
  assumes "subscript email_info ''identifier'' = Inr nr_number"
    and "status_code (query_nr_number env nr_number) = 200"
    and "json_body (query_nr_number env nr_number) = Some nr_data"
    and "subscript nr_data ''applicants'' = Inr applicants"
    and "subscript applicants ''emailAddress'' = Inr recipients"
    and "\<not> truthy recipients"
  shows "(\<forall>p. snd (process env email_info option) = Inr p \<longrightarrow> p = PDict [])
       \<and> (\<forall>template vars html_out.
             read_text env (template_path env option) = Inr template \<and>
             render_vars env email_info option nr_number nr_data = Inr vars \<and>
             render env (substitute_template_parts env template) True vars = Inr html_out \<longrightarrow>
             snd (process env email_info option) = Inr (PDict []))"
proof -
  have r: "recipients_of nr_data = Inr recipients"
    using assms(4,5) by (simp add: recipients_of_def)
  have "p = PDict []" if "snd (process env email_info option) = Inr p" for p
  proof (rule ccontr)
    assume "p \<noteq> PDict []"
    from process_payload [OF that this] assms(1,3,6) r show False by auto
  qed
  moreover have "snd (process env email_info option) = Inr (PDict [])"
    if "read_text env (template_path env option) = Inr template"
      and "render_vars env email_info option nr_number nr_data = Inr vars"
      and "render env (substitute_template_parts env template) True vars = Inr html_out"
    for template vars html_out
    using that assms(1,2,3,6) r by (simp add: process_def Let_def)
  ultimately show ?thesis by blast
qed

theorem empty_recipients_return_empty_witness:
  "snd (process
     (example_env 200
        (Some (PDict [(''names'', PList example_names),
                      (''applicants'', PDict [(''emailAddress'', PList [])]),
                      (''expirationDate'', PNone),
                      (''entity_type_cd'', PStr ''BC'')])))
     example_info ''upgrade'') = Inr (PDict [])"
proof -
  let ?rec = "PDict [(''names'', PList example_names),
                      (''applicants'', PDict [(''emailAddress'', PList [])]),
                      (''expirationDate'', PNone),
                      (''entity_type_cd'', PStr ''BC'')]"
  let ?env = "example_env 200 (Some ?rec)"
  let ?vars = "[(''nr_number'', PStr ''NR 1234567''),
      (''expiration_date'', PStr ''''),
      (''legal_name'', PStr ''B''),
      (''refund_value'', PStr ''''),
      (''name_request_url'', PStr ''https://business.example''),
      (''decide_business_url'', PNone)]"
  have h1: "subscript example_info ''identifier'' = Inr (PStr ''NR 1234567'')"
    by (simp add: example_info_def)
  have h2: "status_code (query_nr_number ?env (PStr ''NR 1234567'')) = 200"
    by (simp add: example_env_def)
  have h3: "json_body (query_nr_number ?env (PStr ''NR 1234567'')) = Some ?rec"
    by (simp add: example_env_def)
  have h4: "subscript ?rec ''applicants'' = Inr (PDict [(''emailAddress'', PList [])])"
    by simp
  have h5: "subscript (PDict [(''emailAddress'', PList [])]) ''emailAddress'' = Inr (PList [])"
    by simp
  have h6: "\<not> truthy (PList [])"
    by simp
  have k1: "read_text ?env (template_path ?env ''upgrade'') = Inr ''<p>{{ legal_name }} is upgraded</p>''"
    by (simp add: example_defs)
  have k2: "render_vars ?env example_info ''upgrade'' (PStr ''NR 1234567'') ?rec = Inr ?vars"
    by (simp add: example_defs)
  have k3: "render ?env (substitute_template_parts ?env ''<p>{{ legal_name }} is upgraded</p>'') True ?vars
              = Inr ''<html><p>{{ legal_name }} is upgraded</p></html>''"
    by (simp add: example_env_def)
  from empty_recipients_return_empty [OF h1 h2 h3 h4 h5 h6, of "''upgrade''"] k1 k2 k3
  show ?thesis by blast
qed

text \<open>
  A record whose \<open>applicants\<close> has no key \<open>emailAddress\<close>: the template is rendered and
  \<^verbatim>\<open>nr_data['applicants']['emailAddress']\<close> then raises KeyError.
\<close>

theorem recipients_absent_counterexample:
  "process
     (example_env 200
        (Some (PDict [(''names'', PList example_names),
                      (''applicants'', PDict []),
                      (''expirationDate'', PStr ''2023-05-01T00:00:00+00:00''),
                      (''entity_type_cd'', PStr ''BC'')])))
     example_info ''renewal''
   = ([LogDebug ''renewal'' example_info,
       ReadText ''/templates/NR-RENEWAL.html'',
       Substitute ''<p>{{ legal_name }} is renewed</p>'',
       QueryNr (PStr ''NR 1234567''),
       Render ''<html><p>{{ legal_name }} is renewed</p></html>'' True
         [(''nr_number'', PStr ''NR 1234567''),
          (''expiration_date'', PStr ''April 30, 2023 at 5:00 pm Pacific time''),
          (''legal_name'', PStr ''B''),
          (''refund_value'', PStr ''''),
          (''name_request_url'', PStr ''https://business.example''),
          (''decide_business_url'', PNone)]],
      Inl (KeyError ''emailAddress''))"
  by (simp add: example_defs)

subsection \<open>The payload\<close>

text \<open>
  Claim C7. Every payload that \<^verbatim>\<open>process\<close> returns, other than the empty mapping, has
  the subject \<^verbatim>\<open><identifier> - <suffix>\<close> with the suffix of the option in the table
  \<open>subjects\<close>, the sender \<^verbatim>\<open>BCRegistries@gov.bc.ca\<close>, no attachments, and the
  record's \<^verbatim>\<open>applicants.emailAddress\<close> as recipients. The witness is the run for
  \<^verbatim>\<open>NR 1234567\<close> with the option \<^verbatim>\<open>renewal\<close>.
\<close>

theorem payload_fields:
  assumes "snd (process env email_info option) = Inr p" and "p \<noteq> PDict []"
  shows "\<exists>nr_number nr_data applicants recipients subject html_out.
           subscript email_info ''identifier'' = Inr nr_number \<and>
           json_body (query_nr_number env nr_number) = Some nr_data \<and>
           subscript nr_data ''applicants'' = Inr applicants \<and>
           subscript applicants ''emailAddress'' = Inr recipients \<and>
           map_of subjects option = Some subject \<and>
           p = PDict [(''recipients'', recipients),
                      (''requestBy'', PStr ''BCRegistries@gov.bc.ca''),
                      (''content'',
                       PDict [(''subject'', PStr (py_format (py_repr env) nr_number @ '' - '' @ subject)),
                              (''body'', PStr html_out),
                              (''attachments'', PList [])])]"
proof -
  from process_payload [OF assms] obtain nr_number nr_data recipients subject html_out where
    a: "subscript email_info ''identifier'' = Inr nr_number"
       "json_body (query_nr_number env nr_number) = Some nr_data"
       "recipients_of nr_data = Inr recipients"
       "map_of subjects option = Some subject"
       "p = payload recipients (py_format (py_repr env) nr_number @ '' - '' @ subject) html_out"
    by blast
  from a(3) obtain applicants where
    b: "subscript nr_data ''applicants'' = Inr applicants"
       "subscript applicants ''emailAddress'' = Inr recipients"
    by (auto simp: recipients_of_Inr)
  from a(1,2,4,5) b show ?thesis unfolding payload_def by blast
qed

theorem payload_fields_witness:
  "snd (process
     (example_env 200
        (Some (example_record [PDict [(''name'', PStr ''Acme Co''), (''state'', PStr ''APPROVED'')]]
                 (PStr ''2023-05-01T00:00:00+00:00''))))
     (PDict [(''identifier'', PStr ''NR 1234567'')]) ''renewal'')
   = Inr (PDict [(''recipients'', PStr ''applicant@example.com''),
                 (''requestBy'', PStr ''BCRegistries@gov.bc.ca''),
                 (''content'',
                  PDict [(''subject'', PStr ''NR 1234567 - Confirmation of Renewal''),
                         (''body'', PStr ''<html><p>{{ legal_name }} is renewed</p></html>''),
                         (''attachments'', PList [])])])
   \<and> map_of subjects ''renewal'' = Some ''Confirmation of Renewal''"
proof -
  let ?env = "example_env 200
        (Some (example_record [PDict [(''name'', PStr ''Acme Co''), (''state'', PStr ''APPROVED'')]]
                 (PStr ''2023-05-01T00:00:00+00:00'')))"
  let ?p = "PDict [(''recipients'', PStr ''applicant@example.com''),
                 (''requestBy'', PStr ''BCRegistries@gov.bc.ca''),
                 (''content'',
                  PDict [(''subject'', PStr ''NR 1234567 - Confirmation of Renewal''),
                         (''body'', PStr ''<html><p>{{ legal_name }} is renewed</p></html>''),
                         (''attachments'', PList [])])]"
  have h1: "snd (process ?env (PDict [(''identifier'', PStr ''NR 1234567'')]) ''renewal'') = Inr ?p"
    by (simp add: example_defs)
  have h2: "?p \<noteq> PDict []"
    by simp
  have "map_of subjects ''renewal'' = Some ''Confirmation of Renewal''"
    using payload_fields [OF h1 h2] by (simp add: subjects_def)
  with h1 show ?thesis by blast
qed

text \<open>
  Claim C2, amended. For each of the five options as the enumeration writes it (lower
  case), the subject table has the suffix of that option, \<^verbatim>\<open>process\<close> reads the template
  file \<^verbatim>\<open>NR-<OPTION-UPPERCASE>.html\<close> of the template directory and no other file, every
  payload it returns carries that suffix, and it does return the payload when the file is
  read, the registry answers 200, the variables are computed, the template renders and the
  record has recipients. The file name is built from the uppercased option, so an option
  written in another letter case selects the same file. The witness runs all five options.
\<close>

theorem option_template_and_subject:
  assumes "(option, file, suffix) \<in> set option_templates"
  shows "map_of subjects option = Some suffix
       \<and> (\<forall>o'. upper o' = upper option \<longrightarrow> template_path env o' = template_root env @ ''/'' @ file)
       \<and> (\<forall>path. ReadText path \<in> set (fst (process env email_info option)) \<longrightarrow>
             path = template_root env @ ''/'' @ file)
       \<and> (\<forall>nr_number. subscript email_info ''identifier'' = Inr nr_number \<longrightarrow>
             ReadText (template_root env @ ''/'' @ file) \<in> set (fst (process env email_info option)))
       \<and> (\<forall>p. snd (process env email_info option) = Inr p \<and> p \<noteq> PDict [] \<longrightarrow>
             (\<exists>nr_number recipients html_out.
                subscript email_info ''identifier'' = Inr nr_number \<and>
                p = PDict [(''recipients'', recipients),
                           (''requestBy'', PStr ''BCRegistries@gov.bc.ca''),
                           (''content'',
                            PDict [(''subject'', PStr (py_format (py_repr env) nr_number @ '' - '' @ suffix)),
                                   (''body'', PStr html_out),
                                   (''attachments'', PList [])])]))
       \<and> (\<forall>nr_number template nr_data vars html_out applicants recipients.
             subscript email_info ''identifier'' = Inr nr_number \<and>
             read_text env (template_root env @ ''/'' @ file) = Inr template \<and>
             status_code (query_nr_number env nr_number) = 200 \<and>
             json_body (query_nr_number env nr_number) = Some nr_data \<and>
             render_vars env email_info option nr_number nr_data = Inr vars \<and>
             render env (substitute_template_parts env template) True vars = Inr html_out \<and>
             subscript nr_data ''applicants'' = Inr applicants \<and>
             subscript applicants ''emailAddress'' = Inr recipients \<and>
             truthy recipients \<longrightarrow>
             process env email_info option =
               ([LogDebug option email_info,
                 ReadText (template_root env @ ''/'' @ file),
                 Substitute template,
                 QueryNr nr_number,
                 Render (substitute_template_parts env template) True vars],
                Inr (PDict [(''recipients'', recipients),
                            (''requestBy'', PStr ''BCRegistries@gov.bc.ca''),
                            (''content'',
                             PDict [(''subject'', PStr (py_format (py_repr env) nr_number @ '' - '' @ suffix)),
                                    (''body'', PStr html_out),
                                    (''attachments'', PList [])])])))"
proof -
  from assms have up: "''NR-'' @ upper option @ ''.html'' = file"
    and sub: "map_of subjects option = Some suffix"
    by (auto simp: option_templates_def subjects_def upper_def upper_char_def)
  have path: "template_path env o' = template_root env @ ''/'' @ file" if "upper o' = upper option" for o'
    using that up by (simp add: template_path_def template_root_def)
  have rd: "path = template_root env @ ''/'' @ file"
    if "ReadText path \<in> set (fst (process env email_info option))" for path
    using read_text_event [OF that] path [of option] by simp
  have ev: "ReadText (template_root env @ ''/'' @ file) \<in> set (fst (process env email_info option))"
    if "subscript email_info ''identifier'' = Inr nr_number" for nr_number
    using that path [of option]
    by (auto simp: process_def Let_def split: sum.splits option.splits)
  have pl: "\<exists>nr_number recipients html_out.
                subscript email_info ''identifier'' = Inr nr_number \<and>
                p = PDict [(''recipients'', recipients),
                           (''requestBy'', PStr ''BCRegistries@gov.bc.ca''),
                           (''content'',
                            PDict [(''subject'', PStr (py_format (py_repr env) nr_number @ '' - '' @ suffix)),
                                   (''body'', PStr html_out),
                                   (''attachments'', PList [])])]"
    if "snd (process env email_info option) = Inr p \<and> p \<noteq> PDict []" for p
  proof -
    from that have "snd (process env email_info option) = Inr p" and "p \<noteq> PDict []" by simp_all
    from process_payload [OF this] sub show ?thesis unfolding payload_def by auto
  qed
  have run: "process env email_info option =
               ([LogDebug option email_info,
                 ReadText (template_root env @ ''/'' @ file),
                 Substitute template,
                 QueryNr nr_number,
                 Render (substitute_template_parts env template) True vars],
                Inr (PDict [(''recipients'', recipients),
                            (''requestBy'', PStr ''BCRegistries@gov.bc.ca''),
                            (''content'',
                             PDict [(''subject'', PStr (py_format (py_repr env) nr_number @ '' - '' @ suffix)),
                                    (''body'', PStr html_out),
                                    (''attachments'', PList [])])]))"
    if "subscript email_info ''identifier'' = Inr nr_number \<and>
        read_text env (template_root env @ ''/'' @ file) = Inr template \<and>
        status_code (query_nr_number env nr_number) = 200 \<and>
        json_body (query_nr_number env nr_number) = Some nr_data \<and>
        render_vars env email_info option nr_number nr_data = Inr vars \<and>
        render env (substitute_template_parts env template) True vars = Inr html_out \<and>
        subscript nr_data ''applicants'' = Inr applicants \<and>
        subscript applicants ''emailAddress'' = Inr recipients \<and>
        truthy recipients"
    for nr_number template nr_data vars html_out applicants recipients
    using that sub path [of option]
    by (simp add: process_def Let_def recipients_of_def payload_def)
  show ?thesis
    apply (intro conjI allI impI)
    subgoal by (rule sub)
    subgoal by (rule path)
    subgoal by (rule rd)
    subgoal by (rule ev)
    subgoal by (rule pl)
    subgoal by (rule run)
    done
qed

theorem option_template_and_subject_witness:
  "(''refund'', ''NR-REFUND.html'', ''Refund request confirmation'') \<in> set option_templates
   \<and> map_of subjects ''refund'' = Some ''Refund request confirmation''
   \<and> template_path (example_env 200 (Some (example_record example_names PNone))) ''Refund''
       = ''/templates/NR-REFUND.html''
   \<and> ReadText ''/templates/NR-REFUND.html''
       \<in> set (fst (process (example_env 200 (Some (example_record example_names PNone)))
                      example_info ''refund''))
   \<and> snd (process (example_env 200 (Some (example_record example_names PNone))) example_info ''before-expiry'')
       = Inr (PDict [(''recipients'', PStr ''applicant@example.com''),
                     (''requestBy'', PStr ''BCRegistries@gov.bc.ca''),
                     (''content'',
                      PDict [(''subject'', PStr ''NR 1234567 - Expiring Soon''),
                             (''body'', PStr ''<html><p>{{ legal_name }} expires soon</p></html>''),
                             (''attachments'', PList [])])])
   \<and> snd (process (example_env 200 (Some (example_record example_names PNone))) example_info ''expired'')
       = Inr (PDict [(''recipients'', PStr ''applicant@example.com''),
                     (''requestBy'', PStr ''BCRegistries@gov.bc.ca''),
                     (''content'',
                      PDict [(''subject'', PStr ''NR 1234567 - Expired''),
                             (''body'', PStr ''<html><p>{{ legal_name }} has expired</p></html>''),
                             (''attachments'', PList [])])])
   \<and> snd (process (example_env 200 (Some (example_record example_names PNone))) example_info ''renewal'')
       = Inr (PDict [(''recipients'', PStr ''applicant@example.com''),
                     (''requestBy'', PStr ''BCRegistries@gov.bc.ca''),
                     (''content'',
                      PDict [(''subject'', PStr ''NR 1234567 - Confirmation of Renewal''),
                             (''body'', PStr ''<html><p>{{ legal_name }} is renewed</p></html>''),
                             (''attachments'', PList [])])])
   \<and> snd (process (example_env 200 (Some (example_record example_names PNone))) example_info ''upgrade'')
       = Inr (PDict [(''recipients'', PStr ''applicant@example.com''),
                     (''requestBy'', PStr ''BCRegistries@gov.bc.ca''),
                     (''content'',
                      PDict [(''subject'', PStr ''NR 1234567 - Confirmation of Upgrade''),
                             (''body'', PStr ''<html><p>{{ legal_name }} is upgraded</p></html>''),
                             (''attachments'', PList [])])])
   \<and> snd (process (example_env 200 (Some (example_record example_names PNone))) example_info ''refund'')
       = Inr (PDict [(''recipients'', PStr ''applicant@example.com''),
                     (''requestBy'', PStr ''BCRegistries@gov.bc.ca''),
                     (''content'',
                      PDict [(''subject'', PStr ''NR 1234567 - Refund request confirmation''),
                             (''body'', PStr ''<html><p>{{ refund_value }} is refunded</p></html>''),
                             (''attachments'', PList [])])])"
proof -
  let ?env = "example_env 200 (Some (example_record example_names PNone))"
  have h: "(''refund'', ''NR-REFUND.html'', ''Refund request confirmation'') \<in> set option_templates"
    by (simp add: option_templates_def)
  have u: "upper ''Refund'' = upper ''refund''"
    by (simp add: upper_def upper_char_def)
  have i: "subscript example_info ''identifier'' = Inr (PStr ''NR 1234567'')"
    by (simp add: example_info_def)
  have r: "template_root ?env = ''/templates''"
    by (simp add: template_root_def example_env_def config_get_def)
  note inst = option_template_and_subject [OF h, of ?env example_info]
  from inst have s: "map_of subjects ''refund'' = Some ''Refund request confirmation''"
    by blast
  from inst u have "template_path ?env ''Refund'' = template_root ?env @ ''/'' @ ''NR-REFUND.html''"
    by blast
  then have a: "template_path ?env ''Refund'' = ''/templates/NR-REFUND.html''"
    by (simp add: r)
  from inst i
  have "ReadText (template_root ?env @ ''/'' @ ''NR-REFUND.html'')
          \<in> set (fst (process ?env example_info ''refund''))"
    by blast
  then have b: "ReadText ''/templates/NR-REFUND.html'' \<in> set (fst (process ?env example_info ''refund''))"
    by (simp add: r)
  have ra: "snd (process ?env example_info ''before-expiry'')
       = Inr (PDict [(''recipients'', PStr ''applicant@example.com''),
                     (''requestBy'', PStr ''BCRegistries@gov.bc.ca''),
                     (''content'',
                      PDict [(''subject'', PStr ''NR 1234567 - Expiring Soon''),
                             (''body'', PStr ''<html><p>{{ legal_name }} expires soon</p></html>''),
                             (''attachments'', PList [])])])"
    by (simp add: example_defs)
  have rb: "snd (process ?env example_info ''expired'')
       = Inr (PDict [(''recipients'', PStr ''applicant@example.com''),
                     (''requestBy'', PStr ''BCRegistries@gov.bc.ca''),
                     (''content'',
                      PDict [(''subject'', PStr ''NR 1234567 - Expired''),
                             (''body'', PStr ''<html><p>{{ legal_name }} has expired</p></html>''),
                             (''attachments'', PList [])])])"
    by (simp add: example_defs)
  have rc: "snd (process ?env example_info ''renewal'')
       = Inr (PDict [(''recipients'', PStr ''applicant@example.com''),
                     (''requestBy'', PStr ''BCRegistries@gov.bc.ca''),
                     (''content'',
                      PDict [(''subject'', PStr ''NR 1234567 - Confirmation of Renewal''),
                             (''body'', PStr ''<html><p>{{ legal_name }} is renewed</p></html>''),
                             (''attachments'', PList [])])])"
    by (simp add: example_defs)
  have rd: "snd (process ?env example_info ''upgrade'')
       = Inr (PDict [(''recipients'', PStr ''applicant@example.com''),
                     (''requestBy'', PStr ''BCRegistries@gov.bc.ca''),
                     (''content'',
                      PDict [(''subject'', PStr ''NR 1234567 - Confirmation of Upgrade''),
                             (''body'', PStr ''<html><p>{{ legal_name }} is upgraded</p></html>''),
                             (''attachments'', PList [])])])"
    by (simp add: example_defs)
  have re: "snd (process ?env example_info ''refund'')
       = Inr (PDict [(''recipients'', PStr ''applicant@example.com''),
                     (''requestBy'', PStr ''BCRegistries@gov.bc.ca''),
                     (''content'',
                      PDict [(''subject'', PStr ''NR 1234567 - Refund request confirmation''),
                             (''body'', PStr ''<html><p>{{ refund_value }} is refunded</p></html>''),
                             (''attachments'', PList [])])])"
    by (simp add: example_defs)
  from h s a b ra rb rc rd re show ?thesis by blast
qed

text \<open>
  The option \<^verbatim>\<open>RENEWAL\<close>, in capitals: the file \<^verbatim>\<open>NR-RENEWAL.html\<close> is read and
  rendered, and \<^verbatim>\<open>subjects[option]\<close> then raises KeyError, since the keys of the table
  are the lower-case values.
\<close>

theorem uppercase_option_counterexample:
  "process
     (example_env 200
        (Some (example_record [PDict [(''name'', PStr ''Acme Co''), (''state'', PStr ''APPROVED'')]]
                 (PStr ''2023-05-01T00:00:00+00:00''))))
     example_info ''RENEWAL''
   = ([LogDebug ''RENEWAL'' example_info,
       ReadText ''/templates/NR-RENEWAL.html'',
       Substitute ''<p>{{ legal_name }} is renewed</p>'',
       QueryNr (PStr ''NR 1234567''),
       Render ''<html><p>{{ legal_name }} is renewed</p></html>'' True
         [(''nr_number'', PStr ''NR 1234567''),
          (''expiration_date'', PStr ''April 30, 2023 at 5:00 pm Pacific time''),
          (''legal_name'', PStr ''Acme Co''),
          (''refund_value'', PStr ''''),
          (''name_request_url'', PStr ''https://business.example''),
          (''decide_business_url'', PNone)]],
      Inl (KeyError ''RENEWAL''))"
  by (simp add: example_defs)

subsection \<open>The template file\<close>

text \<open>
  Claim C8. When reading the template file of the option raises, \<^verbatim>\<open>process\<close> raises
  the same error, having done nothing more than the read; in no case does it return a
  mapping.
\<close>

theorem missing_template_propagates:
  assumes "read_text env (template_path env option) = Inl e"
  shows "(\<forall>nr_number. subscript email_info ''identifier'' = Inr nr_number \<longrightarrow>
            process env email_info option =
              ([LogDebug option email_info, ReadText (template_path env option)], Inl e))
       \<and> (\<forall>v. snd (process env email_info option) \<noteq> Inr v)"
  using process_no_template [OF assms, of email_info]
  by (auto split: sum.splits)

theorem missing_template_propagates_witness:
  "process ((example_env 200 None)\<lparr>read_text := \<lambda>p. Inl FileNotFoundError\<rparr>) example_info ''renewal''
     = ([LogDebug ''renewal'' example_info, ReadText ''/templates/NR-RENEWAL.html''],
        Inl FileNotFoundError)"
proof -
  let ?env = "(example_env 200 None)\<lparr>read_text := \<lambda>p. Inl FileNotFoundError\<rparr>"
  have h: "read_text ?env (template_path ?env ''renewal'') = Inl FileNotFoundError"
    by simp
  have i: "subscript example_info ''identifier'' = Inr (PStr ''NR 1234567'')"
    by (simp add: example_info_def)
  have p: "template_path ?env ''renewal'' = ''/templates/NR-RENEWAL.html''"
    by (simp add: example_defs)
  from missing_template_propagates [OF h, of example_info] i
  have "process ?env example_info ''renewal''
          = ([LogDebug ''renewal'' example_info, ReadText (template_path ?env ''renewal'')],
             Inl FileNotFoundError)"
    by blast
  then show ?thesis by (simp only: p)
qed

text \<open>
  Claim C10. The template is read and substituted before the registry is asked. When the
  read raises, \<^verbatim>\<open>process\<close> raises whatever the registry would answer, and the registry
  is never queried. When \<^verbatim>\<open>process\<close> returns the empty mapping, the template file was
  read, and the run begins with the debug log, the read, the substitution and the query, in
  this order.
\<close>

theorem template_loaded_before_registry:
  "(read_text env (template_path env option) = Inl e \<longrightarrow>
      (\<forall>q. (\<exists>e'. snd (process (env\<lparr>query_nr_number := q\<rparr>) email_info option) = Inl e') \<and>
           (\<forall>nr. QueryNr nr \<notin> set (fst (process (env\<lparr>query_nr_number := q\<rparr>) email_info option)))))
 \<and> (snd (process env email_info option) = Inr (PDict []) \<longrightarrow>
      (\<exists>nr_number template.
         subscript email_info ''identifier'' = Inr nr_number \<and>
         read_text env (template_path env option) = Inr template \<and>
         take 4 (fst (process env email_info option)) =
           [LogDebug option email_info, ReadText (template_path env option),
            Substitute template, QueryNr nr_number]))"
proof (intro conjI impI allI)
  fix q
  assume "read_text env (template_path env option) = Inl e"
  then have "read_text (env\<lparr>query_nr_number := q\<rparr>)
               (template_path (env\<lparr>query_nr_number := q\<rparr>) option) = Inl e"
    by simp
  note eq = process_no_template [OF this, of email_info]
  show "\<exists>e'. snd (process (env\<lparr>query_nr_number := q\<rparr>) email_info option) = Inl e'"
    unfolding eq by (simp split: sum.splits)
  show "QueryNr nr \<notin> set (fst (process (env\<lparr>query_nr_number := q\<rparr>) email_info option))" for nr
    unfolding eq by (simp split: sum.splits)
next
  assume "snd (process env email_info option) = Inr (PDict [])"
  from process_empty [OF this] show "\<exists>nr_number template.
         subscript email_info ''identifier'' = Inr nr_number \<and>
         read_text env (template_path env option) = Inr template \<and>
         take 4 (fst (process env email_info option)) =
           [LogDebug option email_info, ReadText (template_path env option),
            Substitute template, QueryNr nr_number]"
    by auto
qed

theorem template_loaded_before_registry_witness:
  "process ((example_env 404 None)\<lparr>read_text := \<lambda>p. Inl FileNotFoundError\<rparr>) example_info ''expired''
     = ([LogDebug ''expired'' example_info, ReadText ''/templates/NR-EXPIRED.html''],
        Inl FileNotFoundError)
   \<and> snd (process (example_env 404 None) example_info ''expired'') = Inr (PDict [])
   \<and> take 4 (fst (process (example_env 404 None) example_info ''expired''))
       = [LogDebug ''expired'' example_info, ReadText ''/templates/NR-EXPIRED.html'',
          Substitute ''<p>{{ legal_name }} has expired</p>'', QueryNr (PStr ''NR 1234567'')]"
proof -
  let ?env = "(example_env 404 None)\<lparr>read_text := \<lambda>p. Inl FileNotFoundError\<rparr>"
  have run: "process ?env example_info ''expired''
     = ([LogDebug ''expired'' example_info, ReadText ''/templates/NR-EXPIRED.html''],
        Inl FileNotFoundError)"
    by (simp add: example_defs)
  have h: "read_text ?env (template_path ?env ''expired'') = Inl FileNotFoundError"
    by simp
  have q: "?env\<lparr>query_nr_number := query_nr_number ?env\<rparr> = ?env"
    by simp
  have k: "snd (process (example_env 404 None) example_info ''expired'') = Inr (PDict [])"
    by (simp add: example_defs)
  have p: "template_path (example_env 404 None) ''expired'' = ''/templates/NR-EXPIRED.html''"
    by (simp add: example_defs)
  have t: "read_text (example_env 404 None) ''/templates/NR-EXPIRED.html''
             = Inr ''<p>{{ legal_name }} has expired</p>''"
    by (simp add: example_env_def example_files_def)
  have i: "subscript example_info ''identifier'' = Inr (PStr ''NR 1234567'')"
    by (simp add: example_info_def)
  note thm1 = template_loaded_before_registry
    [of ?env "''expired''" FileNotFoundError example_info, THEN conjunct1, rule_format, OF h,
     of "query_nr_number ?env"]
  note thm2 = template_loaded_before_registry
    [of "example_env 404 None" "''expired''" FileNotFoundError example_info, THEN conjunct2,
     rule_format, OF k]
  have "\<forall>nr. QueryNr nr \<notin> set (fst (process ?env example_info ''expired''))"
    using thm1 unfolding q by blast
  moreover have "take 4 (fst (process (example_env 404 None) example_info ''expired''))
       = [LogDebug ''expired'' example_info, ReadText ''/templates/NR-EXPIRED.html'',
          Substitute ''<p>{{ legal_name }} has expired</p>'', QueryNr (PStr ''NR 1234567'')]"
    using thm2 by (auto simp: p t i)
  ultimately show ?thesis using run k by blast
qed

end
